theory Spec2Isabelle
  imports Main
begin

section \<open>Python strings\<close>

text \<open>
  A Python \<open>str\<close> is a sequence of Unicode code points, so a string is a list of
  natural numbers here; \<open>lit ''abc''\<close> is the string of an ASCII literal.
\<close>

type_synonym str = "nat list"

abbreviation lit :: "string \<Rightarrow> str" where
  "lit s \<equiv> map of_char s"

text \<open>
  \<open>str.isspace\<close>, \<open>str.isalnum\<close> and \<open>str.upper\<close> are table lookups in the Unicode
  character database of the interpreter. Their ASCII part is written out below; the part
  for the code points from 128 on is a parameter of the model, so that what is proved for
  every table holds for the interpreter's table.
\<close>

record ucd =
  isspace_tbl :: "nat \<Rightarrow> bool"
  isalnum_tbl :: "nat \<Rightarrow> bool"
  upper_tbl :: "nat \<Rightarrow> str"

definition isspace :: "ucd \<Rightarrow> nat \<Rightarrow> bool" where
  "isspace U c =
     (if c < 128 then (9 \<le> c \<and> c \<le> 13) \<or> (28 \<le> c \<and> c \<le> 32)
      else isspace_tbl U c)"

definition isalnum :: "ucd \<Rightarrow> nat \<Rightarrow> bool" where
  "isalnum U c =
     (if c < 128 then (48 \<le> c \<and> c \<le> 57) \<or> (65 \<le> c \<and> c \<le> 90) \<or> (97 \<le> c \<and> c \<le> 122)
      else isalnum_tbl U c)"

text \<open>One code point can have several in upper case (\<open>"\<ss>".upper() == "SS"\<close>).\<close>

definition upper_char :: "ucd \<Rightarrow> nat \<Rightarrow> str" where
  "upper_char U c =
     (if c < 128 then (if 97 \<le> c \<and> c \<le> 122 then [c - 32] else [c])
      else upper_tbl U c)"

definition upper :: "ucd \<Rightarrow> str \<Rightarrow> str" where
  "upper U s = concat (map (upper_char U) s)"

definition strip :: "ucd \<Rightarrow> str \<Rightarrow> str" where
  "strip U s = rev (dropWhile (isspace U) (rev (dropWhile (isspace U) s)))"

definition startswith :: "'a list \<Rightarrow> 'a list \<Rightarrow> bool" where
  "startswith s p = (take (length p) s = p)"

text \<open>
  \<open>s.replace(old, new)\<close> replaces the occurrences of \<open>old\<close> from left to right,
  without overlap; with an empty \<open>old\<close> Python puts \<open>new\<close> around every character.
\<close>

fun replace :: "'a list \<Rightarrow> 'a list \<Rightarrow> 'a list \<Rightarrow> 'a list" where
  "replace old new [] = (if old = [] then new else [])"
| "replace old new (c # cs) =
     (if old = [] then new @ c # replace old new cs
      else if startswith (c # cs) old
        then new @ replace old new (drop (length old - 1) cs)
      else c # replace old new cs)"

text \<open>\<open>s.split(sep)\<close> for a separator of one character; the result is never empty.\<close>

fun split :: "'a \<Rightarrow> 'a list \<Rightarrow> 'a list list" where
  "split sep [] = [[]]"
| "split sep (c # cs) =
     (if c = sep then [] # split sep cs
      else (case split sep cs of
              [] \<Rightarrow> [[c]]
            | w # ws \<Rightarrow> (c # w) # ws))"

text \<open>
  The truth value of an optional string (\<open>if x:\<close>, \<open>x or d\<close>): \<open>None\<close> and the empty
  string are false.
\<close>

definition truthy :: "str option \<Rightarrow> bool" where
  "truthy x = (case x of None \<Rightarrow> False | Some s \<Rightarrow> s \<noteq> [])"

definition py_or :: "str option \<Rightarrow> str \<Rightarrow> str" where
  "py_or x d = (case x of None \<Rightarrow> d | Some s \<Rightarrow> if s \<noteq> [] then s else d)"

text \<open>\<open>os.getenv(key, default)\<close> on the process environment.\<close>

type_synonym environ = "str \<Rightarrow> str option"

definition getenv :: "environ \<Rightarrow> str \<Rightarrow> str \<Rightarrow> str" where
  "getenv env key dflt = (case env key of None \<Rightarrow> dflt | Some v \<Rightarrow> v)"

text \<open>
  An excerpt of the Unicode tables (Unicode 14, as \<open>unicodedata\<close> of Python 3.11 has
  them), for concrete inputs: the Latin-1 Supplement block (128 to 255), the code points
  its upper case leaves the block for (U+0178, U+039C), U+01F0 (small j with caron) and
  U+030C (combining caron). The excerpt says nothing true about other code points.
\<close>

definition ucd_excerpt :: ucd where
  "ucd_excerpt =
     \<lparr> isspace_tbl = (\<lambda>c. c = 133 \<or> c = 160),
       isalnum_tbl = (\<lambda>c. c \<in> {170, 178, 179, 181, 185, 186, 188, 189, 190}
                          \<or> (192 \<le> c \<and> c \<le> 255 \<and> c \<noteq> 215 \<and> c \<noteq> 247)
                          \<or> c \<in> {376, 496, 924}),
       upper_tbl = (\<lambda>c. if c = 181 then [924]
                         else if c = 223 then [83, 83]
                         else if 224 \<le> c \<and> c \<le> 254 \<and> c \<noteq> 247 then [c - 32]
                         else if c = 255 then [376]
                         else if c = 496 then [74, 780]
                         else [c]) \<rparr>"

section \<open>Exceptions, history records and the world outside the program\<close>

datatype exn =
    GitCommandError str
  | InvalidGitRepositoryError
  | TypeError
  | IndexError
  | AttributeError
  | RuntimeError str
  | OSError
  | JSONDecodeError

text \<open>The values \<open>json.loads\<close> returns and \<open>json.dumps\<close> takes; a history record is
  a \<open>JObj\<close>, a dict in the order of its keys.\<close>

datatype json =
    JNull
  | JBool bool
  | JNum int
  | JStr str
  | JArr "json list"
  | JObj "(str \<times> json) list"

text \<open>
  The text of a history file, as the program reads it: \<open>Blank\<close> is a text whose
  \<open>strip()\<close> is empty, \<open>Json v\<close> a text that \<open>json.loads\<close> decodes to \<open>v\<close> (what
  \<open>json.dumps(v, indent=2)\<close> writes is such a text), \<open>Malformed\<close> any other text, on
  which \<open>json.loads\<close> raises. Reading and writing the file themselves are taken to succeed.
\<close>

datatype file_text = Blank | Json json | Malformed

text \<open>A \<open>pathlib.Path\<close> is the list of its components.\<close>

type_synonym path = "str list"

text \<open>
  What the version-control library and the file system hold: the working copy the
  \<open>Repo\<close> objects look at (\<open>active_branch\<close> is \<open>None\<close> on a detached head, where
  GitPython's \<open>repo.active_branch\<close> raises \<open>TypeError\<close>; \<open>hexsha\<close> is the hash of the head
  commit) and the directories (a path to the names in it).
\<close>

record disk =
  valid_repo :: bool
  active_branch :: "str option"
  heads :: "str list"
  remotes :: "str list"
  is_dirty :: bool
  hexsha :: str
  dirs :: "path \<Rightarrow> str list option"

text \<open>The calls into GitPython and \<open>shutil\<close> that change something or reach a remote.\<close>

datatype git_call =
    Checkout str
  | Pull str
  | CreateHead str
  | AddAll
  | AddFiles "str list"
  | Commit str "str option"
  | Push str str bool
  | CloneFrom str path "str option" "nat option"
  | Rmtree path

text \<open>
  The library is a black box: a parameter that says, for a call on a disk, whether the
  call raises and what the disk is afterwards. What is proved for every such function
  holds for the real one.
\<close>

type_synonym git = "git_call \<Rightarrow> disk \<Rightarrow> exn option \<times> disk"

record world =
  w_disk :: disk
  w_trace :: "(git_call \<times> exn option) list"
  w_files :: "path \<Rightarrow> file_text option"
  w_environ :: environ
  w_now :: str

text \<open>A call is written to the trace with what it raised (\<open>None\<close> when it returned);
  the state it leaves stays when it raises.\<close>

definition invoke :: "git \<Rightarrow> git_call \<Rightarrow> world \<Rightarrow> (exn + unit) \<times> world" where
  "invoke G c w =
     (case G c (w_disk w) of
        (r, d) \<Rightarrow>
          ((case r of None \<Rightarrow> Inr () | Some e \<Rightarrow> Inl e),
           w\<lparr>w_disk := d, w_trace := w_trace w @ [(c, r)]\<rparr>))"

text \<open>Statements in sequence inside a \<open>try\<close>: the first exception ends the block.\<close>

definition and_then ::
  "(exn + 'a) \<times> world \<Rightarrow> ('a \<Rightarrow> world \<Rightarrow> (exn + 'b) \<times> world) \<Rightarrow> (exn + 'b) \<times> world" where
  "and_then m f = (case m of (Inl e, w) \<Rightarrow> (Inl e, w) | (Inr x, w) \<Rightarrow> f x w)"


section \<open>Branch names (branch\_manager.py)\<close>

record branch_manager =
  bm_repo :: bool
  bm_team_name :: str
  bm_leader_name :: str
  bm_history_file :: path
  branch_history :: "json list"

text \<open>
  \<open>BranchManager._normalize_name\<close>: trim, spaces to underscores, keep the characters
  that are alphanumeric or an underscore, upper case. \<open>None\<close> gives the empty string.
\<close>

definition normalize_name :: "ucd \<Rightarrow> str option \<Rightarrow> str" where
  "normalize_name U value =
     (case value of
        None \<Rightarrow> []
      | Some v \<Rightarrow>
          (let cleaned = replace (lit '' '') (lit ''_'') (strip U v);
               cleaned = filter (\<lambda>ch. isalnum U ch \<or> [ch] = lit ''_'') cleaned
           in upper U cleaned))"

definition BRANCH_SUFFIX :: str where
  "BRANCH_SUFFIX = lit ''AI_Fix''"

definition DEFAULT_TEAM_NAME :: "environ \<Rightarrow> str" where
  "DEFAULT_TEAM_NAME env = getenv env (lit ''TEAM_NAME'') (lit ''RAG_RAIDERS'')"

definition DEFAULT_LEADER_NAME :: "environ \<Rightarrow> str" where
  "DEFAULT_LEADER_NAME env = getenv env (lit ''LEADER_NAME'') (lit ''DEO_PRAKASH'')"

text \<open>
  \<open>BranchManager.__init__\<close>: \<open>self.repo\<close> is set (\<open>bm_repo\<close>) when a path is given
  and \<open>Repo(repo_path)\<close> does not raise; the history file is created as \<open>[]\<close>.
\<close>

definition BranchManager_init ::
  "world \<Rightarrow> str option \<Rightarrow> str option \<Rightarrow> str option \<Rightarrow> branch_manager \<times> world" where
  "BranchManager_init w repo_path team_name leader_name =
     (let history_file = [lit ''data'', lit ''branch_history.json''] in
      (\<lparr> bm_repo = (truthy repo_path \<and> valid_repo (w_disk w)),
         bm_team_name = py_or team_name (DEFAULT_TEAM_NAME (w_environ w)),
         bm_leader_name = py_or leader_name (DEFAULT_LEADER_NAME (w_environ w)),
         bm_history_file = history_file,
         branch_history = [] \<rparr>,
       if w_files w history_file = None
       then w\<lparr>w_files := (w_files w)(history_file \<mapsto> Json (JArr []))\<rparr>
       else w))"

definition generate_branch_name ::
  "ucd \<Rightarrow> branch_manager \<Rightarrow> str option \<Rightarrow> str option \<Rightarrow> str" where
  "generate_branch_name U bm team_name leader_name =
     (let team = normalize_name U (Some (py_or team_name (bm_team_name bm)));
          leader = normalize_name U (Some (py_or leader_name (bm_leader_name bm)))
      in team @ lit ''_'' @ leader @ lit ''_'' @ BRANCH_SUFFIX)"

section \<open>The history files\<close>

text \<open>
  The first lines of \<open>_save_operation\<close> and of \<open>_save_to_file\<close>: the history already
  in the file, \<open>[]\<close> for a missing or blank file.
\<close>

definition read_existing :: "file_text option \<Rightarrow> exn + json" where
  "read_existing f =
     (case f of
        None \<Rightarrow> Inr (JArr [])
      | Some Blank \<Rightarrow> Inr (JArr [])
      | Some (Json v) \<Rightarrow> Inr v
      | Some Malformed \<Rightarrow> Inl JSONDecodeError)"

text \<open>\<open>existing_history.append(x)\<close>: only a list has the method.\<close>

definition list_append :: "json \<Rightarrow> json \<Rightarrow> exn + json" where
  "list_append existing_history x =
     (case existing_history of
        JArr xs \<Rightarrow> Inr (JArr (xs @ [x]))
      | _ \<Rightarrow> Inl AttributeError)"

text \<open>\<open>BranchManager._save_to_file\<close>; an exception is logged and nothing is written.\<close>

definition save_to_file :: "branch_manager \<Rightarrow> world \<Rightarrow> json \<Rightarrow> world" where
  "save_to_file bm w branch_entry =
     (case read_existing (w_files w (bm_history_file bm)) of
        Inl e \<Rightarrow> w
      | Inr existing_history \<Rightarrow>
          (case list_append existing_history branch_entry of
             Inl e \<Rightarrow> w
           | Inr v \<Rightarrow> w\<lparr>w_files := (w_files w)(bm_history_file bm \<mapsto> Json v)\<rparr>))"

section \<open>Branch operations (branch\_manager.py)\<close>

definition branch_record :: "world \<Rightarrow> str \<Rightarrow> str \<Rightarrow> json" where
  "branch_record w branch_name base_branch =
     JObj [(lit ''timestamp'', JStr (w_now w)),
           (lit ''branch_name'', JStr branch_name),
           (lit ''base_branch'', JStr base_branch),
           (lit ''status'', JStr (lit ''created''))]"





section \<open>Commit and push (git\_automation.py)\<close>

record git_automation =
  branch_manager :: branch_manager
  ga_team_name :: str
  ga_leader_name :: str
  ga_history_file :: path
  automation_history :: "json list"

text \<open>
  \<open>GitAutomation.__init__\<close>; the resolved repository path stands as one component of
  the history file's path.
\<close>

definition GitAutomation_init :: "world \<Rightarrow> str \<Rightarrow> (exn + git_automation) \<times> world" where
  "GitAutomation_init w repo_path =
     (if \<not> valid_repo (w_disk w) then (Inl InvalidGitRepositoryError, w)
      else
        (case BranchManager_init w (Some repo_path) None None of
           (bm, w1) \<Rightarrow>
             (let history_file = [repo_path, lit ''data'', lit ''git_automation_history.json''] in
              (Inr \<lparr> branch_manager = bm,
                      ga_team_name = getenv (w_environ w1) (lit ''TEAM_NAME'') (lit ''RIFT_ORGANISERS''),
                      ga_leader_name = getenv (w_environ w1) (lit ''LEADER_NAME'') (lit ''SAIYAM_KUMAR''),
                      ga_history_file = history_file,
                      automation_history = [] \<rparr>,
               if w_files w1 history_file = None
               then w1\<lparr>w_files := (w_files w1)(history_file \<mapsto> Json (JArr []))\<rparr>
               else w1))))"

text \<open>\<open>GitAutomation._save_operation\<close>, the same steps on the automation history file.\<close>

definition save_operation :: "git_automation \<Rightarrow> world \<Rightarrow> json \<Rightarrow> world" where
  "save_operation ga w operation =
     (case read_existing (w_files w (ga_history_file ga)) of
        Inl e \<Rightarrow> w
      | Inr existing_history \<Rightarrow>
          (case list_append existing_history operation of
             Inl e \<Rightarrow> w
           | Inr v \<Rightarrow> w\<lparr>w_files := (w_files w)(ga_history_file ga \<mapsto> Json v)\<rparr>))"







definition push_record :: "world \<Rightarrow> str \<Rightarrow> str \<Rightarrow> bool \<Rightarrow> json" where
  "push_record w remote branch force =
     JObj [(lit ''timestamp'', JStr (w_now w)),
           (lit ''action'', JStr (lit ''push'')),
           (lit ''remote'', JStr remote),
           (lit ''branch'', JStr branch),
           (lit ''force'', JBool force),
           (lit ''status'', JStr (lit ''success''))]"






section \<open>Cloning (repo\_clone.py)\<close>

record repo_cloner =
  base_dir :: path
  clone_history :: "json list"

definition RepoCloner_init :: "path \<Rightarrow> repo_cloner" where
  "RepoCloner_init dir = \<lparr> base_dir = dir, clone_history = [] \<rparr>"

text \<open>\<open>xs[-1]\<close> raises on an empty list.\<close>

definition index_last :: "'a list \<Rightarrow> exn + 'a" where
  "index_last xs = (if xs = [] then Inl IndexError else Inr (last xs))"

text \<open>\<open>repo_url.split('/')[-1].replace('.git', '')\<close>\<close>

definition repo_name_of :: "str \<Rightarrow> exn + str" where
  "repo_name_of repo_url =
     (case index_last (split (of_char CHR ''/'') repo_url) of
        Inl e \<Rightarrow> Inl e
      | Inr seg \<Rightarrow> Inr (replace (lit ''.git'') [] seg))"

text \<open>\<open>base / name\<close> for a name without a slash: an empty name and \<open>"."\<close> add nothing.\<close>

definition path_join :: "path \<Rightarrow> str \<Rightarrow> path" where
  "path_join base name = (if name = [] \<or> name = lit ''.'' then base else base @ [name])"

fun path_str :: "path \<Rightarrow> str" where
  "path_str [] = lit ''.''"
| "path_str [c] = c"
| "path_str (c # cs) = c @ lit ''/'' @ path_str cs"

definition truthy_depth :: "nat option \<Rightarrow> nat option" where
  "truthy_depth depth = (case depth of None \<Rightarrow> None | Some n \<Rightarrow> if n = 0 then None else Some n)"

definition clone_success_record :: "world \<Rightarrow> str \<Rightarrow> str \<Rightarrow> str option \<Rightarrow> path \<Rightarrow> json" where
  "clone_success_record w repo_url repo_name branch clone_path =
     JObj [(lit ''timestamp'', JStr (w_now w)),
           (lit ''repo_url'', JStr repo_url),
           (lit ''repo_name'', JStr repo_name),
           (lit ''branch'', JStr (py_or branch (lit ''default''))),
           (lit ''status'', JStr (lit ''success'')),
           (lit ''path'', JStr (path_str clone_path))]"

definition clone_failed_record :: "world \<Rightarrow> str \<Rightarrow> str \<Rightarrow> json" where
  "clone_failed_record w repo_url error =
     JObj [(lit ''timestamp'', JStr (w_now w)),
           (lit ''repo_url'', JStr repo_url),
           (lit ''status'', JStr (lit ''failed'')),
           (lit ''error'', JStr error)]"

text \<open>The \<open>try\<close> block of \<open>clone_repository\<close>, up to the record.\<close>

definition clone_try ::
  "git \<Rightarrow> repo_cloner \<Rightarrow> world \<Rightarrow> str \<Rightarrow> str option \<Rightarrow> nat option
     \<Rightarrow> (exn + str \<times> path) \<times> world" where
  "clone_try G rc w repo_url branch depth =
     (case repo_name_of repo_url of
        Inl e \<Rightarrow> (Inl e, w)
      | Inr repo_name \<Rightarrow>
          (let clone_path = path_join (base_dir rc) repo_name in
           and_then (if dirs (w_disk w) clone_path \<noteq> None
                     then invoke G (Rmtree clone_path) w else (Inr (), w)) (\<lambda>_ w.
           and_then (invoke G (CloneFrom repo_url clone_path
                                 (if truthy branch then branch else None)
                                 (truthy_depth depth)) w) (\<lambda>_ w.
             (Inr (repo_name, clone_path), w)))))"

text \<open>\<open>clone_repository\<close> returns the \<open>Repo\<close> of the clone, which its path stands for,
  or raises again what was raised.\<close>

definition clone_repository ::
  "git \<Rightarrow> repo_cloner \<Rightarrow> world \<Rightarrow> str \<Rightarrow> str option \<Rightarrow> nat option
     \<Rightarrow> (exn + path) \<times> repo_cloner \<times> world" where
  "clone_repository G rc w repo_url branch depth =
     (case clone_try G rc w repo_url branch depth of
        (Inr (repo_name, clone_path), w') \<Rightarrow>
          (Inr clone_path,
           rc\<lparr>clone_history := clone_history rc
                  @ [clone_success_record w' repo_url repo_name branch clone_path]\<rparr>,
           w')
      | (Inl e, w') \<Rightarrow>
          (case e of
             GitCommandError text \<Rightarrow>
               (Inl e,
                rc\<lparr>clone_history := clone_history rc @ [clone_failed_record w' repo_url text]\<rparr>,
                w')
           | _ \<Rightarrow> (Inl e, rc, w')))"

section \<open>Notions the properties are stated with\<close>






text \<open>A history file that is missing, blank or holds the empty array.\<close>

definition empty_history :: "file_text option \<Rightarrow> bool" where
  "empty_history f =
     (case f of
        None \<Rightarrow> True
      | Some Blank \<Rightarrow> True
      | Some (Json v) \<Rightarrow> v = JArr []
      | Some Malformed \<Rightarrow> False)"



text \<open>The calls an operation added to the trace, between the world before it and the
  world after it.\<close>

definition new_calls :: "world \<Rightarrow> world \<Rightarrow> (git_call \<times> exn option) list" where
  "new_calls w w' = drop (length (w_trace w)) (w_trace w')"



text \<open>A process environment and a world for concrete runs.\<close>

definition empty_environ :: environ where
  "empty_environ = (\<lambda>k. None)"

definition blank_environ :: environ where
  "blank_environ =
     (\<lambda>k. if k = lit ''TEAM_NAME'' \<or> k = lit ''LEADER_NAME'' then Some [] else None)"

definition sample_disk :: disk where
  "sample_disk =
     \<lparr> valid_repo = True,
       active_branch = Some (lit ''main''),
       heads = [lit ''main''],
       remotes = [lit ''origin''],
       is_dirty = True,
       hexsha = lit ''9fceb02d0ae598e95dc970b74767f19372d61af8'',
       dirs = (\<lambda>p. None) \<rparr>"

definition sample_world :: world where
  "sample_world =
     \<lparr> w_disk = sample_disk,
       w_trace = [],
       w_files = (\<lambda>p. None),
       w_environ = empty_environ,
       w_now = lit ''2026-02-19T10:00:00'' \<rparr>"

text \<open>
  A library for concrete runs: a checkout needs the branch to exist, a commit cleans the
  working copy, a clone of the one URL that is not there raises, and every other call
  returns.
\<close>

fun sample_git :: git where
  "sample_git (Checkout b) d =
     (if b \<in> set (heads d) then (None, d\<lparr>active_branch := Some b\<rparr>)
      else (Some (GitCommandError (lit ''pathspec did not match'')), d))"
| "sample_git (Pull r) d = (None, d)"
| "sample_git (CreateHead b) d = (None, d\<lparr>heads := heads d @ [b]\<rparr>)"
| "sample_git AddAll d = (None, d)"
| "sample_git (AddFiles fs) d = (None, d)"
| "sample_git (Commit m a) d =
     (None, d\<lparr>is_dirty := False, hexsha := lit ''1c002dd4b536e7479fe34593e72e6c6c1819e53b''\<rparr>)"
| "sample_git (Push r b f) d = (None, d)"
| "sample_git (CloneFrom u p b n) d =
     (if u = lit ''https://example.org/gone.git''
      then (Some (GitCommandError (lit ''repository not found'')), d)
      else (None, d\<lparr>dirs := (dirs d)(p \<mapsto> [lit ''.git''])\<rparr>))"
| "sample_git (Rmtree p) d = (None, d\<lparr>dirs := (dirs d)(p := None)\<rparr>)"

text \<open>The objects and the world that \<open>GitAutomation(".")\<close> makes of \<open>sample_world\<close>.\<close>

definition sample_bm :: branch_manager where
  "sample_bm =
     \<lparr> bm_repo = True,
       bm_team_name = lit ''RAG_RAIDERS'',
       bm_leader_name = lit ''DEO_PRAKASH'',
       bm_history_file = [lit ''data'', lit ''branch_history.json''],
       branch_history = [] \<rparr>"

definition sample_ga :: git_automation where
  "sample_ga =
     \<lparr> branch_manager = sample_bm,
       ga_team_name = lit ''RIFT_ORGANISERS'',
       ga_leader_name = lit ''SAIYAM_KUMAR'',
       ga_history_file = [lit ''.'', lit ''data'', lit ''git_automation_history.json''],
       automation_history = [] \<rparr>"

definition ready_world :: world where
  "ready_world =
     sample_world\<lparr>w_files :=
       (\<lambda>p. if p = [lit ''.'', lit ''data'', lit ''git_automation_history.json'']
                  \<or> p = [lit ''data'', lit ''branch_history.json'']
            then Some (Json (JArr [])) else None)\<rparr>"

definition feature_branch :: str where
  "feature_branch = lit ''RIFT_ORGANISERS_SAIYAM_KUMAR_AI_Fix''"

definition sample_rc :: repo_cloner where
  "sample_rc = RepoCloner_init [lit ''repos'']"

text \<open>Worlds in which every file has the given text, or the working copy is clean, or the
  head is detached; two history records.\<close>

definition world_with_files :: "file_text \<Rightarrow> world" where
  "world_with_files f = sample_world\<lparr>w_files := (\<lambda>p. Some f)\<rparr>"



definition sample_push_record :: json where
  "sample_push_record = push_record sample_world (lit ''origin'') feature_branch False"

definition sample_branch_record :: json where
  "sample_branch_record = branch_record sample_world feature_branch (lit ''main'')"


section \<open>Name normalization\<close>










lemmas normalize_eval =
  generate_branch_name_def normalize_name_def py_or_def strip_def isspace_def isalnum_def
  upper_def upper_char_def startswith_def BRANCH_SUFFIX_def Let_def

text \<open>
  C4. \<open>generate_branch_name\<close> on team "RIFT ORGANISERS" and leader "Saiyam Kumar" is
  exactly \<open>RIFT_ORGANISERS_SAIYAM_KUMAR_AI_Fix\<close>, and on team "RIFT@2026" and leader
  "John-Doe" exactly \<open>RIFT2026_JOHNDOE_AI_Fix\<close>: punctuation is dropped, not replaced.
  This holds for every manager and every Unicode table.
\<close>

theorem generate_branch_name_examples:
  "generate_branch_name U bm (Some (lit ''RIFT ORGANISERS'')) (Some (lit ''Saiyam Kumar''))
     = lit ''RIFT_ORGANISERS_SAIYAM_KUMAR_AI_Fix''
   \<and> generate_branch_name U bm (Some (lit ''RIFT@2026'')) (Some (lit ''John-Doe''))
     = lit ''RIFT2026_JOHNDOE_AI_Fix''"
  by (simp add: normalize_eval)







text \<open>
  C10, as the claim states it, fails: an empty argument falls back to the configured
  name, and the configured name can itself be empty. With \<open>TEAM_NAME\<close> and \<open>LEADER_NAME\<close>
  set to the empty string in the environment, a manager built without names gives
  \<open>__AI_Fix\<close>.
\<close>

theorem generate_branch_name_empty_counterexample:
  "generate_branch_name ucd_excerpt
     (fst (BranchManager_init (sample_world\<lparr>w_environ := blank_environ\<rparr>) None None None))
     (Some []) (Some [])
   = lit ''__AI_Fix''"
  by (simp add: normalize_eval BranchManager_init_def sample_world_def blank_environ_def
      DEFAULT_TEAM_NAME_def DEFAULT_LEADER_NAME_def getenv_def)

text \<open>
  C10, amended: an empty string for team or leader is treated as an absent argument, and
  the name configured in the manager is used; the tokens of the branch name are then the
  normalized configured names. With the defaults of the source (no \<open>TEAM_NAME\<close> and no
  \<open>LEADER_NAME\<close> in the environment, no names given to the constructor) the branch name
  is \<open>RAG_RAIDERS_DEO_PRAKASH_AI_Fix\<close>.
\<close>

theorem generate_branch_name_empty_argument:
  "generate_branch_name U bm (Some []) leader_name = generate_branch_name U bm None leader_name
   \<and> generate_branch_name U bm team_name (Some []) = generate_branch_name U bm team_name None
   \<and> generate_branch_name U bm (Some []) (Some [])
       = normalize_name U (Some (bm_team_name bm)) @ lit ''_''
         @ normalize_name U (Some (bm_leader_name bm)) @ lit ''_AI_Fix''
   \<and> generate_branch_name U
         (fst (BranchManager_init
                 (w\<lparr>w_environ := (w_environ w)(lit ''TEAM_NAME'' := None, lit ''LEADER_NAME'' := None)\<rparr>)
                 repo_path None None))
         (Some []) (Some [])
       = lit ''RAG_RAIDERS_DEO_PRAKASH_AI_Fix''"
  by (simp add: normalize_eval BranchManager_init_def DEFAULT_TEAM_NAME_def
      DEFAULT_LEADER_NAME_def getenv_def)

section \<open>The history files\<close>

lemma save_operation_empty:
  "empty_history (w_files w (ga_history_file ga)) \<Longrightarrow>
     w_files (save_operation ga w e) (ga_history_file ga) = Some (Json (JArr [e]))"
  by (auto simp: empty_history_def save_operation_def read_existing_def list_append_def
      split: option.splits file_text.splits)

lemma save_operation_array:
  "w_files w (ga_history_file ga) = Some (Json (JArr xs)) \<Longrightarrow>
     w_files (save_operation ga w e) (ga_history_file ga) = Some (Json (JArr (xs @ [e])))"
  by (simp add: save_operation_def read_existing_def list_append_def)

lemma foldl_save_operation:
  "w_files w (ga_history_file ga) = Some (Json (JArr xs)) \<Longrightarrow>
     w_files (foldl (save_operation ga) w es) (ga_history_file ga) = Some (Json (JArr (xs @ es)))"
proof (induction es arbitrary: w xs)
  case Nil
  then show ?case by simp
next
  case (Cons e es)
  from Cons.IH[OF save_operation_array[OF Cons.prems, of e]] show ?case by simp
qed

lemma appends_save_operation:
  assumes "empty_history (w_files w (ga_history_file ga))"
  shows "read_existing (w_files (foldl (save_operation ga) w es) (ga_history_file ga)) = Inr (JArr es)
    \<and> (es \<noteq> [] \<longrightarrow> w_files (foldl (save_operation ga) w es) (ga_history_file ga) = Some (Json (JArr es)))"
proof (cases es)
  case Nil
  with assms show ?thesis
    by (auto simp: empty_history_def read_existing_def split: option.splits file_text.splits)
next
  case (Cons e es')
  have "w_files (foldl (save_operation ga) (save_operation ga w e) es') (ga_history_file ga)
        = Some (Json (JArr ([e] @ es')))"
    by (rule foldl_save_operation) (rule save_operation_empty[OF assms])
  with Cons show ?thesis by (simp add: read_existing_def)
qed

lemma save_operation_malformed:
  "w_files w (ga_history_file ga) = Some Malformed \<Longrightarrow> save_operation ga w e = w"
  by (simp add: save_operation_def read_existing_def)

lemma save_to_file_empty:
  "empty_history (w_files w (bm_history_file bm)) \<Longrightarrow>
     w_files (save_to_file bm w e) (bm_history_file bm) = Some (Json (JArr [e]))"
  by (auto simp: empty_history_def save_to_file_def read_existing_def list_append_def
      split: option.splits file_text.splits)

lemma save_to_file_array:
  "w_files w (bm_history_file bm) = Some (Json (JArr xs)) \<Longrightarrow>
     w_files (save_to_file bm w e) (bm_history_file bm) = Some (Json (JArr (xs @ [e])))"
  by (simp add: save_to_file_def read_existing_def list_append_def)

lemma foldl_save_to_file:
  "w_files w (bm_history_file bm) = Some (Json (JArr xs)) \<Longrightarrow>
     w_files (foldl (save_to_file bm) w es) (bm_history_file bm) = Some (Json (JArr (xs @ es)))"
proof (induction es arbitrary: w xs)
  case Nil
  then show ?case by simp
next
  case (Cons e es)
  from Cons.IH[OF save_to_file_array[OF Cons.prems, of e]] show ?case by simp
qed

lemma appends_save_to_file:
  assumes "empty_history (w_files w (bm_history_file bm))"
  shows "read_existing (w_files (foldl (save_to_file bm) w es) (bm_history_file bm)) = Inr (JArr es)
    \<and> (es \<noteq> [] \<longrightarrow> w_files (foldl (save_to_file bm) w es) (bm_history_file bm) = Some (Json (JArr es)))"
proof (cases es)
  case Nil
  with assms show ?thesis
    by (auto simp: empty_history_def read_existing_def split: option.splits file_text.splits)
next
  case (Cons e es')
  have "w_files (foldl (save_to_file bm) (save_to_file bm w e) es') (bm_history_file bm)
        = Some (Json (JArr ([e] @ es')))"
    by (rule foldl_save_to_file) (rule save_to_file_empty[OF assms])
  with Cons show ?thesis by (simp add: read_existing_def)
qed

lemma save_to_file_malformed:
  "w_files w (bm_history_file bm) = Some Malformed \<Longrightarrow> save_to_file bm w e = w"
  by (simp add: save_to_file_def read_existing_def)

text \<open>
  C3, as the claim states it, fails for a file with malformed JSON: \<open>json.loads\<close> raises,
  the exception is caught and logged, and nothing is written. The file stays malformed and
  the new entry is not in it.
\<close>

theorem history_append_counterexample:
  "w_files (save_operation sample_ga (world_with_files Malformed) sample_push_record)
     (ga_history_file sample_ga)
   = Some Malformed
   \<and> Some Malformed \<noteq> Some (Json (JArr [sample_push_record]))"
  by (simp add: save_operation_def read_existing_def world_with_files_def)

text \<open>
  C3, amended: for every list of entries appended one after the other to a history file
  that is missing, blank or holds the empty array, the file afterwards reads as the array
  of exactly these entries in the order of the calls (and holds that array as soon as one
  entry was appended); an append to a blank file makes the new entry the only element; an
  append to a file with malformed JSON does not raise and leaves the world, and so the
  file, as it was. This holds for \<open>_save_operation\<close> and for \<open>_save_to_file\<close>.
\<close>

theorem history_append:
  "(empty_history (w_files w (ga_history_file ga)) \<longrightarrow>
      read_existing (w_files (foldl (save_operation ga) w es) (ga_history_file ga)) = Inr (JArr es)
      \<and> (es \<noteq> [] \<longrightarrow>
           w_files (foldl (save_operation ga) w es) (ga_history_file ga) = Some (Json (JArr es))))
   \<and> (empty_history (w_files w (bm_history_file bm)) \<longrightarrow>
      read_existing (w_files (foldl (save_to_file bm) w es) (bm_history_file bm)) = Inr (JArr es)
      \<and> (es \<noteq> [] \<longrightarrow>
           w_files (foldl (save_to_file bm) w es) (bm_history_file bm) = Some (Json (JArr es))))
   \<and> (w_files w (ga_history_file ga) = Some Blank \<longrightarrow>
        w_files (save_operation ga w e) (ga_history_file ga) = Some (Json (JArr [e])))
   \<and> (w_files w (bm_history_file bm) = Some Blank \<longrightarrow>
        w_files (save_to_file bm w e) (bm_history_file bm) = Some (Json (JArr [e])))
   \<and> (w_files w (ga_history_file ga) = Some Malformed \<longrightarrow> save_operation ga w e = w)
   \<and> (w_files w (bm_history_file bm) = Some Malformed \<longrightarrow> save_to_file bm w e = w)"
  using appends_save_operation[of w ga es] appends_save_to_file[of w bm es]
    save_operation_empty[of w ga e] save_to_file_empty[of w bm e]
    save_operation_malformed[of w ga e] save_to_file_malformed[of w bm e]
  by (simp add: empty_history_def)

theorem history_append_witness:
  "w_files (foldl (save_operation sample_ga) sample_world [sample_push_record, sample_branch_record])
     (ga_history_file sample_ga)
   = Some (Json (JArr [sample_push_record, sample_branch_record]))
   \<and> w_files (foldl (save_to_file sample_bm) sample_world [sample_push_record, sample_branch_record])
     (bm_history_file sample_bm)
   = Some (Json (JArr [sample_push_record, sample_branch_record]))
   \<and> w_files (save_operation sample_ga (world_with_files Blank) sample_push_record)
     (ga_history_file sample_ga)
   = Some (Json (JArr [sample_push_record]))
   \<and> w_files (save_to_file sample_bm (world_with_files Blank) sample_branch_record)
     (bm_history_file sample_bm)
   = Some (Json (JArr [sample_branch_record]))
   \<and> save_operation sample_ga (world_with_files Malformed) sample_push_record
   = world_with_files Malformed
   \<and> save_to_file sample_bm (world_with_files Malformed) sample_branch_record
   = world_with_files Malformed"
  using
    history_append [of sample_world sample_ga "[sample_push_record, sample_branch_record]"
      sample_bm sample_push_record]
    history_append [of "world_with_files Blank" sample_ga "[sample_push_record]"
      sample_bm sample_push_record]
    history_append [of "world_with_files Blank" sample_ga "[sample_branch_record]"
      sample_bm sample_branch_record]
    history_append [of "world_with_files Malformed" sample_ga "[]" sample_bm sample_push_record]
    history_append [of "world_with_files Malformed" sample_ga "[]" sample_bm sample_branch_record]
  by (simp add: empty_history_def sample_world_def world_with_files_def)

section \<open>Push\<close>



section \<open>Commit\<close>





section \<open>One history record for each operation\<close>














section \<open>The commit and push workflow\<close>






















section \<open>Cloning\<close>

text \<open>
  C9. The directory name is derived with \<open>replace('.git', '')\<close>, which takes every
  occurrence of \<open>.git\<close> out of the last segment of the URL, not only a suffix. For the
  URL \<open>https://github.com/octocat/octocat.github.io\<close> the name is \<open>octocathub.io\<close>, and
  the clone goes to \<open>repos/octocathub.io\<close>; the claim gives \<open>octocat.github.io\<close>, the
  segment unchanged.
\<close>

theorem clone_directory_name:
  "repo_name_of (lit ''https://github.com/octocat/octocat.github.io'')
     = Inr (lit ''octocathub.io'')
   \<and> new_calls ready_world (snd (snd (clone_repository sample_git sample_rc ready_world
         (lit ''https://github.com/octocat/octocat.github.io'') None None)))
     = [(CloneFrom (lit ''https://github.com/octocat/octocat.github.io'')
           [lit ''repos'', lit ''octocathub.io''] None None, None)]"
  by (simp add: clone_repository_def clone_try_def repo_name_of_def index_last_def
      startswith_def path_join_def and_then_def invoke_def sample_rc_def RepoCloner_init_def
      ready_world_def sample_world_def sample_disk_def truthy_def truthy_depth_def
      new_calls_def Let_def)


end
